theory Spec2Isabelle
  imports Complex_Main "HOL-Library.Monad_Syntax" "HOL-Library.Multiset"
begin

section \<open>Data model of app.py\<close>

text \<open>
  A Python \<open>str\<close> is a sequence of Unicode code points; it is modelled as the list of
  its code points, so that concatenation, equality and \<open>startswith\<close> are those of
  Python. The Arabic literals of the source are written out code point by code point.

  Python \<open>float\<close> values (prices, areas, attributions) are modelled as exact reals:
  the model follows the arithmetic and the comparisons of the source, without the
  rounding error of IEEE doubles and without NaN or infinities. Python \<open>int\<close> is
  \<open>int\<close>.
\<close>

type_synonym str = "nat list"

text \<open>
  The request of \<open>/predict\<close> (class \<open>PredictIn\<close>). The Arabic field names are
  translated: \<open>rooms\<close> (number of rooms), \<open>baths\<close> (number of bathrooms),
  \<open>furnished\<close>, \<open>area\<close> (building area), \<open>floor\<close>, \<open>age\<close> (building age in
  years), \<open>mortgaged\<close>, \<open>payment\<close> (payment method), \<open>parking\<close> (optional, so it
  may be \<open>None\<close>) and \<open>city\<close>. \<open>JudgeIn\<close> extends it by \<open>listed_price\<close>.
\<close>

record PredictIn =
  rooms :: int
  baths :: int
  furnished :: int
  area :: real
  floor :: int
  age :: int
  mortgaged :: int
  payment :: int
  parking :: "int option"
  city :: str

record JudgeIn = PredictIn +
  listed_price :: real

text \<open>The values of \<open>TRAIN_KEYS\<close>: the column names the model was trained with.\<close>

definition KEY_rooms :: str where
  "KEY_rooms = [1593, 1583, 1583, 32, 1575, 1604, 1594, 1585, 1601]"

definition KEY_baths :: str where
  "KEY_baths = [1593, 1583, 1583, 32, 1575, 1604, 1581, 1605, 1575, 1605, 1575, 1578]"

definition KEY_furnished :: str where
  "KEY_furnished = [1605, 1601, 1585, 1608, 1588, 1577]"

definition KEY_area :: str where
  "KEY_area = [1605, 1587, 1575, 1581, 1577, 32, 1575, 1604, 1576, 1606, 1575, 1569]"

definition KEY_floor :: str where
  "KEY_floor = [1575, 1604, 1591, 1575, 1576, 1602]"

definition KEY_age :: str where
  "KEY_age = [1593, 1605, 1585, 32, 1575, 1604, 1576, 1606, 1575, 1569]"

definition KEY_mortgaged :: str where
  "KEY_mortgaged = [1575, 1604, 1593, 1602, 1575, 1585, 32, 1605, 1585, 1607, 1608, 1606]"

definition KEY_payment :: str where
  "KEY_payment = [1591, 1585, 1610, 1602, 1577, 32, 1575, 1604, 1583, 1601, 1593]"

text \<open>\<open>CITY_PREFIX\<close>: the Arabic word for "city" followed by an underscore.\<close>

definition CITY_PREFIX :: str where
  "CITY_PREFIX = [1575, 1604, 1605, 1583, 1610, 1606, 1577, 95]"

text \<open>The Arabic word for "other", the name of the fallback city.\<close>

definition OTHER_CITY :: str where
  "OTHER_CITY = [1571, 1582, 1585, 1609]"

text \<open>\<open>str.startswith\<close>.\<close>

fun startswith :: "str \<Rightarrow> str \<Rightarrow> bool" where
  "startswith s [] = True"
| "startswith [] (p # ps) = False"
| "startswith (c # cs) (p # ps) = (c = p \<and> startswith cs ps)"

section \<open>Encoding a request\<close>

definition map_building_age :: "int \<Rightarrow> int" where
  "map_building_age a =
     (if a = 0 then 0
      else if a = 1 then 1
      else if 2 \<le> a \<and> a \<le> 5 then 2
      else if 6 \<le> a \<and> a \<le> 9 then 3
      else if 10 \<le> a \<and> a \<le> 19 then 4
      else 5)"

text \<open>
  A Python dict from column names to numbers is a map; a one-row data frame is the list
  of its columns in order, each with its value.
\<close>

type_synonym row = "(str \<times> real) list"

text \<open>The dict \<open>base\<close> of \<open>build_model_input\<close>.\<close>

definition base_cols :: "'a PredictIn_scheme \<Rightarrow> (str \<rightharpoonup> real)" where
  "base_cols payload = map_of
     [(KEY_rooms, of_int (rooms payload)),
      (KEY_baths, of_int (baths payload)),
      (KEY_furnished, of_int (furnished payload)),
      (KEY_area, area payload),
      (KEY_floor, of_int (floor payload)),
      (KEY_age, of_int (map_building_age (age payload))),
      (KEY_mortgaged, of_int (mortgaged payload)),
      (KEY_payment, of_int (payment payload))]"

text \<open>
  The dict \<open>city_cols\<close>: every city of \<open>city_categories\<close> gets a column at 0; then the
  column of the payload's city is set to 1 when the city is one of the categories, and
  otherwise the column of the city "other" when \<open>city_cols\<close> has it.
\<close>

definition city_cols :: "str list \<Rightarrow> 'a PredictIn_scheme \<Rightarrow> (str \<rightharpoonup> real)" where
  "city_cols city_categories payload =
     (let cols = map_of (map (\<lambda>c. (CITY_PREFIX @ c, 0)) city_categories) in
      if city payload \<in> set city_categories
      then cols(CITY_PREFIX @ city payload \<mapsto> 1)
      else let other_col = CITY_PREFIX @ OTHER_CITY in
           if cols other_col \<noteq> None then cols(other_col \<mapsto> 1) else cols)"

text \<open>
  \<open>DataFrame.reindex(columns=feature_columns, fill_value=0)\<close> on a one-row frame: the
  columns of the result are \<open>feature_columns\<close>, in that order; a column the frame has
  keeps its value and every other one is 0.
\<close>

definition reindex :: "str list \<Rightarrow> (str \<rightharpoonup> real) \<Rightarrow> row" where
  "reindex feature_columns r =
     map (\<lambda>c. (c, case r c of Some v \<Rightarrow> v | None \<Rightarrow> 0)) feature_columns"

definition build_model_input :: "str list \<Rightarrow> str list \<Rightarrow> 'a PredictIn_scheme \<Rightarrow> row" where
  "build_model_input feature_columns city_categories payload =
     reindex feature_columns (base_cols payload ++ city_cols city_categories payload)"

text \<open>The columns a request produces before reindexing: the keys of the dict \<open>row\<close>.\<close>

definition produced_cols :: "str list \<Rightarrow> 'a PredictIn_scheme \<Rightarrow> str set" where
  "produced_cols city_categories payload =
     dom (base_cols payload ++ city_cols city_categories payload)"

section \<open>Rounding to two decimals\<close>

text \<open>
  \<open>round(x, 2)\<close> and \<open>np.round(x, 2)\<close> round to the nearest multiple of 0.01 and a tie
  to the even one.
\<close>

definition round_half_even :: "real \<Rightarrow> int" where
  "round_half_even x =
     (let f = \<lfloor>x\<rfloor>; d = x - of_int f in
      if d < 1 / 2 then f
      else if 1 / 2 < d then f + 1
      else if even f then f else f + 1)"

definition round2 :: "real \<Rightarrow> real" where
  "round2 x = of_int (round_half_even (x * 100)) / 100"

text \<open>A number with at most two decimals: a whole number of hundredths.\<close>

definition two_decimals :: "real \<Rightarrow> bool" where
  "two_decimals x = (of_int \<lfloor>x * 100\<rfloor> = x * 100)"

section \<open>The statistics of NumPy\<close>

text \<open>
  The functions of NumPy that \<open>judge_price\<close> calls, as NumPy documents them, on exact
  reals. \<open>np.min\<close> and \<open>np.max\<close> raise on an empty array (\<open>None\<close>). The mean, the
  median and the percentiles are only called after them, on the same array.
\<close>

definition np_min :: "real list \<Rightarrow> real option" where
  "np_min a = (case a of [] \<Rightarrow> None | x # xs \<Rightarrow> Some (fold min xs x))"

definition np_max :: "real list \<Rightarrow> real option" where
  "np_max a = (case a of [] \<Rightarrow> None | x # xs \<Rightarrow> Some (fold max xs x))"

definition np_mean :: "real list \<Rightarrow> real" where
  "np_mean a = sum_list a / of_nat (length a)"

text \<open>
  \<open>np.percentile(a, q)\<close> with the default linear interpolation: the sorted array is
  read at the position \<open>(n - 1) * q / 100\<close>, between its two neighbours.
\<close>

definition np_percentile :: "real list \<Rightarrow> real \<Rightarrow> real" where
  "np_percentile a q =
     (let s = sort a;
          n = length a;
          h = of_nat (n - 1) * q / 100;
          lo = nat \<lfloor>h\<rfloor>;
          hi = min (lo + 1) (n - 1)
      in s ! lo + (h - of_nat lo) * (s ! hi - s ! lo))"

definition np_median :: "real list \<Rightarrow> real" where
  "np_median a =
     (let s = sort a; n = length a in
      if even n then (s ! (n div 2 - 1) + s ! (n div 2)) / 2 else s ! (n div 2))"

text \<open>
  \<open>np.linspace(start, stop, num)\<close>: \<open>num\<close> points from \<open>start\<close> in steps of
  \<open>(stop - start) / (num - 1)\<close>, the last one set to \<open>stop\<close>.
\<close>

definition linspace :: "real \<Rightarrow> real \<Rightarrow> nat \<Rightarrow> real list" where
  "linspace start stop num =
     (map (\<lambda>i. start + of_nat i * ((stop - start) / of_nat (num - 1))) [0..<num])
       [num - 1 := stop]"

text \<open>
  \<open>np.histogram(a, bins)\<close>: the edges are \<open>bins + 1\<close> equally spaced points from the
  minimum to the maximum of the array (from 0 to 1 for an empty array, and from half a
  unit below to half a unit above when all values are equal). Every bin is half-open,
  \<open>[edge i, edge (i + 1))\<close>, but the last one, which also holds its right edge.
\<close>

definition hist_range :: "real list \<Rightarrow> real \<times> real" where
  "hist_range a =
     (let (first_edge, last_edge) =
            (case a of [] \<Rightarrow> (0, 1) | x # xs \<Rightarrow> (fold min xs x, fold max xs x))
      in if first_edge = last_edge then (first_edge - 1 / 2, last_edge + 1 / 2)
         else (first_edge, last_edge))"

definition in_bin :: "real list \<Rightarrow> nat \<Rightarrow> nat \<Rightarrow> real \<Rightarrow> bool" where
  "in_bin edges bins i x =
     (edges ! i \<le> x \<and> (if i = bins - 1 then x \<le> edges ! (i + 1) else x < edges ! (i + 1)))"

definition np_histogram :: "real list \<Rightarrow> nat \<Rightarrow> nat list \<times> real list" where
  "np_histogram a bins =
     (let (first_edge, last_edge) = hist_range a;
          edges = linspace first_edge last_edge (bins + 1);
          counts = map (\<lambda>i. length (filter (in_bin edges bins i) a)) [0..<bins]
      in (counts, edges))"

section \<open>The judgment\<close>

datatype label =
  SUSPICIOUSLY_UNDERPRICED | FAIR_LOW | PREDICTED_PRICE | GOOD_DEAL | FAIR_PRICE | OVERPRICED

text \<open>The chain of \<open>if\<close> and \<open>elif\<close> of \<open>judge_price\<close> that sets \<open>judgment_key\<close>.\<close>

definition judgment_key :: "real \<Rightarrow> real \<Rightarrow> real \<Rightarrow> real \<Rightarrow> real \<Rightarrow> label" where
  "judgment_key listed predicted_price price_min price_mean price_max =
     (if listed < max (price_min * 0.9) (price_mean * 0.7) then SUSPICIOUSLY_UNDERPRICED
      else if listed < price_mean * 0.85 then FAIR_LOW
      else if predicted_price * 0.95 \<le> listed \<and> listed \<le> predicted_price * 1.05
        then PREDICTED_PRICE
      else if listed < price_mean * 0.95 then GOOD_DEAL
      else if listed < predicted_price then PREDICTED_PRICE
      else if listed \<le> price_max then FAIR_PRICE
      else OVERPRICED)"

text \<open>
  The procedure as the specification words it: an ordered list of rules, each a
  condition and a label, of which the first that matches decides.
\<close>

definition judgment_rules ::
  "real \<Rightarrow> real \<Rightarrow> real \<Rightarrow> real \<Rightarrow> real \<Rightarrow> (bool \<times> label) list" where
  "judgment_rules l p mn mean mx =
     [(l < max (0.9 * mn) (0.7 * mean), SUSPICIOUSLY_UNDERPRICED),
      (l < 0.85 * mean, FAIR_LOW),
      (0.95 * p \<le> l \<and> l \<le> 1.05 * p, PREDICTED_PRICE),
      (l < 0.95 * mean, GOOD_DEAL),
      (l < p, PREDICTED_PRICE),
      (l \<le> mx, FAIR_PRICE),
      (True, OVERPRICED)]"

fun first_match :: "(bool \<times> 'a) list \<Rightarrow> 'a option" where
  "first_match [] = None"
| "first_match ((c, x) # rs) = (if c then Some x else first_match rs)"

section \<open>The market simulation and \<open>/judge_price\<close>\<close>

text \<open>
  The seven nested loops of \<open>judge_price\<close>: each variant is a copy of the payload with
  seven fields overwritten. \<open>range(1, 5)\<close> is 1, 2, 3, 4 and \<open>range(1, 4)\<close> is 1, 2, 3.
\<close>

definition grid_variants :: "'a PredictIn_scheme \<Rightarrow> 'a PredictIn_scheme list" where
  "grid_variants payload =
     [payload\<lparr>rooms := r, baths := b, age := a, floor := f, furnished := fu,
              payment := pa, mortgaged := m\<rparr>.
        r \<leftarrow> [1, 2, 3, 4], b \<leftarrow> [1, 2, 3], a \<leftarrow> [0, 5, 9, 19, 20],
        f \<leftarrow> [0, 1, 2, 3, 4, 11], fu \<leftarrow> [0, 1], pa \<leftarrow> [0, 1, 2], m \<leftarrow> [0, 1]]"

text \<open>The seven fields of a variant that the loops set.\<close>

definition variant_dims ::
  "'a PredictIn_scheme \<Rightarrow> int \<times> int \<times> int \<times> int \<times> int \<times> int \<times> int" where
  "variant_dims v = (rooms v, baths v, age v, floor v, furnished v, payment v, mortgaged v)"

text \<open>
  The trained model is outside the repository: it is a parameter, a function from an
  encoded row to a price, and \<open>final_model.predict\<close> on a frame of many rows prices
  each row. \<open>predicted_prices\<close> is what the model returns on the encoded variants.
\<close>

definition predicted_prices ::
  "(row \<Rightarrow> real) \<Rightarrow> str list \<Rightarrow> str list \<Rightarrow> 'a PredictIn_scheme \<Rightarrow> real list" where
  "predicted_prices final_model feature_columns city_categories payload =
     map final_model
       (map (build_model_input feature_columns city_categories) (grid_variants payload))"

text \<open>The truth value of the optional parking flag: neither \<open>None\<close> nor 0.\<close>

definition truthy :: "int option \<Rightarrow> bool" where
  "truthy flag = (case flag of None \<Rightarrow> False | Some v \<Rightarrow> v \<noteq> 0)"

record JudgeOut =
  out_judgment_key :: label
  out_listed_price :: real
  out_predicted_price :: real
  out_market_mean :: real
  out_market_median :: real
  out_price_q1 :: real
  out_price_q3 :: real
  out_price_range :: "real list"
  out_hist_counts :: "nat list"
  out_hist_edges :: "real list"

text \<open>
  \<open>judge_price\<close>. \<open>None\<close> is the exception that the handler turns into the HTTP
  error 400. The helper \<open>r\<close> of the source is \<open>round2\<close>.
\<close>

definition judge_price ::
  "(row \<Rightarrow> real) \<Rightarrow> str list \<Rightarrow> str list \<Rightarrow> JudgeIn \<Rightarrow> JudgeOut option" where
  "judge_price final_model feature_columns city_categories payload = do {
     let prices = predicted_prices final_model feature_columns city_categories payload;
     price_min \<leftarrow> np_min prices;
     price_max \<leftarrow> np_max prices;
     let price_mean = np_mean prices;
     let price_median = np_median prices;
     let price_q1 = np_percentile prices 25;
     let price_q3 = np_percentile prices 75;
     let (hist_counts, hist_edges) = np_histogram prices 10;
     let listed = listed_price payload;
     let df_input = build_model_input feature_columns city_categories payload;
     let predicted_price = final_model df_input;
     let predicted_price =
       (if truthy (parking payload) then predicted_price * 1.011 else predicted_price);
     let key = judgment_key listed predicted_price price_min price_mean price_max;
     Some \<lparr> out_judgment_key = key,
            out_listed_price = round2 listed,
            out_predicted_price = round2 predicted_price,
            out_market_mean = round2 price_mean,
            out_market_median = round2 price_median,
            out_price_q1 = round2 price_q1,
            out_price_q3 = round2 price_q3,
            out_price_range = [round2 price_min, round2 price_max],
            out_hist_counts = hist_counts,
            out_hist_edges = hist_edges \<rparr>
   }"

section \<open>Attributions by group and \<open>/predict\<close>\<close>

text \<open>The names of the six groups of \<open>FEATURE_GROUPS\<close>, in the order of the dict.\<close>

definition GROUP_area_rooms :: str where
  "GROUP_area_rooms =
     [1575, 1604, 1605, 1587, 1575, 1581, 1577, 32, 1608, 32, 1575, 1604, 1594, 1585, 1601]"

definition GROUP_baths :: str where
  "GROUP_baths = [1575, 1604, 1581, 1605, 1575, 1605, 1575, 1578]"

definition GROUP_condition :: str where
  "GROUP_condition = [1581, 1575, 1604, 1577, 32, 1575, 1604, 1593, 1602, 1575, 1585]"

definition GROUP_payment :: str where
  "GROUP_payment = [1575, 1604, 1583, 1601, 1593]"

definition GROUP_floor :: str where
  "GROUP_floor = [1575, 1604, 1591, 1575, 1576, 1602]"

definition GROUP_city :: str where
  "GROUP_city = [1575, 1604, 1605, 1583, 1610, 1606, 1577]"

definition FEATURE_GROUPS :: "str list \<Rightarrow> (str \<times> str list) list" where
  "FEATURE_GROUPS feature_columns =
     [(GROUP_area_rooms, [KEY_area, KEY_rooms]),
      (GROUP_baths, [KEY_baths]),
      (GROUP_condition, [KEY_furnished, KEY_age, KEY_mortgaged]),
      (GROUP_payment, [KEY_payment]),
      (GROUP_floor, [KEY_floor]),
      (GROUP_city, filter (\<lambda>col. startswith col CITY_PREFIX) feature_columns)]"

text \<open>
  \<open>dict(zip(input_df.columns, shap_values))\<close>: \<open>zip\<close> stops at the shorter of the two,
  and of two values for one column name the later one stays.
\<close>

definition feature_shap :: "row \<Rightarrow> real list \<Rightarrow> (str \<rightharpoonup> real)" where
  "feature_shap input_df shap_values = map_of (rev (zip (map fst input_df) shap_values))"

text \<open>
  \<open>input_df.iloc[0][f] == 1\<close> as the condition of the comprehension: a \<open>KeyError\<close>
  when the frame has no column \<open>f\<close>, and a \<open>ValueError\<close> when it has several, since the
  comparison is then a series with no truth value. Both are \<open>None\<close>.
\<close>

definition iloc0 :: "row \<Rightarrow> str \<Rightarrow> real option" where
  "iloc0 input_df f =
     (case filter (\<lambda>(c, v). c = f) input_df of [(c, v)] \<Rightarrow> Some v | _ \<Rightarrow> None)"

fun active_cities :: "row \<Rightarrow> str list \<Rightarrow> str list option" where
  "active_cities input_df [] = Some []"
| "active_cities input_df (f # fs) = do {
     v \<leftarrow> iloc0 input_df f;
     rest \<leftarrow> active_cities input_df fs;
     Some (if v = 1 then f # rest else rest)
   }"

text \<open>\<open>sum(feature_shap.get(f, 0) for f in features)\<close>.\<close>

definition shap_sum :: "(str \<rightharpoonup> real) \<Rightarrow> str list \<Rightarrow> real" where
  "shap_sum fs features = sum_list (map (\<lambda>f. case fs f of Some v \<Rightarrow> v | None \<Rightarrow> 0) features)"

text \<open>
  The loop over the groups that fills the dict \<open>grouped\<close>; the names of the groups are
  distinct, so the dict is the list of its items in the order of the loop.
\<close>

fun grouped_sums :: "(str \<times> str list) list \<Rightarrow> real list \<Rightarrow> row \<Rightarrow> row option" where
  "grouped_sums [] shap_values input_df = Some []"
| "grouped_sums ((group_name, features) # groups) shap_values input_df = do {
     s \<leftarrow> (if group_name = GROUP_city
           then do {
             act \<leftarrow> active_cities input_df features;
             Some (shap_sum (feature_shap input_df shap_values) act)
           }
           else Some (shap_sum (feature_shap input_df shap_values) features));
     rest \<leftarrow> grouped_sums groups shap_values input_df;
     Some ((group_name, s) # rest)
   }"

text \<open>The dict \<open>ranked\<close> before it is sorted: the percentage of every group.\<close>

definition ranked_percentages :: "row \<Rightarrow> row" where
  "ranked_percentages grouped =
     (let s = sum_list (map (\<lambda>(k, v). \<bar>v\<bar>) grouped);
          total_abs = (if s = 0 then 1 / 10 ^ 9 else s)
      in map (\<lambda>(k, v). (k, round2 (v / total_abs * 100))) grouped)"

text \<open>
  \<open>sorted(..., key=lambda x: abs(x[1]), reverse=True)\<close> is stable: items of equal
  absolute value stay in the order they had. It is the stable sort by the negated key.
\<close>

definition sort_abs_desc :: "row \<Rightarrow> row" where
  "sort_abs_desc ranked = sort_key (\<lambda>(k, v). - \<bar>v\<bar>) ranked"

definition group_shap_values :: "str list \<Rightarrow> real list \<Rightarrow> row \<Rightarrow> row option" where
  "group_shap_values feature_columns shap_values input_df = do {
     grouped \<leftarrow> grouped_sums (FEATURE_GROUPS feature_columns) shap_values input_df;
     let ranked = ranked_percentages grouped;
     let ranked = sort_abs_desc ranked;
     Some (take 4 ranked)
   }"

record PredictOut =
  predicted_price :: real
  factors :: row

text \<open>
  \<open>predict\<close>. The explainer is outside the repository as the model is: a function from
  an encoded row to the attributions of its columns.
\<close>

definition predict ::
  "(row \<Rightarrow> real) \<Rightarrow> (row \<Rightarrow> real list) \<Rightarrow> str list \<Rightarrow> str list \<Rightarrow> 'a PredictIn_scheme
     \<Rightarrow> PredictOut option" where
  "predict final_model explainer feature_columns city_categories payload = do {
     let df_input = build_model_input feature_columns city_categories payload;
     let y_pred = final_model df_input;
     let y_pred = (if truthy (parking payload) then y_pred * 1.011 else y_pred);
     let contribs = explainer df_input;
     grouped \<leftarrow> group_shap_values feature_columns contribs df_input;
     let grouped = map (\<lambda>(k, v). (k, round2 v)) grouped;
     Some \<lparr> predicted_price = round2 y_pred, factors = grouped \<rparr>
   }"

section \<open>Example inputs\<close>

text \<open>
  A request: three rooms, two bathrooms, furnished, 120 square metres, second floor,
  seven years old, not mortgaged, paid in cash, no parking, in the city "X", listed at
  3000. The cities the model knows are "A" and "B"; the schema has the columns of the
  rooms, of the area, of both cities and of the city "other".
\<close>

definition example_payload :: JudgeIn where
  "example_payload =
     \<lparr> rooms = 3, baths = 2, furnished = 1, area = 120, floor = 2, age = 7, mortgaged = 0,
       payment = 0, parking = Some 0, city = [88], listed_price = 3000 \<rparr>"

definition example_cities :: "str list" where
  "example_cities = [[65], [66]]"

definition example_columns :: "str list" where
  "example_columns =
     [KEY_rooms, KEY_area, CITY_PREFIX @ [65], CITY_PREFIX @ [66], CITY_PREFIX @ OTHER_CITY]"

text \<open>
  The same request in the city "A", and attributions for the five columns of the example
  schema.
\<close>

definition example_city_payload :: JudgeIn where
  "example_city_payload = example_payload\<lparr>city := [65]\<rparr>"

definition example_attributions :: "real list" where
  "example_attributions = [3, 1, 5, 7, 9]"

text \<open>
  A model that prices a row at an eighth of its number of rooms, and an explainer that
  attributes to every column its own value.
\<close>

definition stub_model :: "row \<Rightarrow> real" where
  "stub_model r = (case map_of r KEY_rooms of Some v \<Rightarrow> v / 8 | None \<Rightarrow> 0)"

definition example_explainer :: "row \<Rightarrow> real list" where
  "example_explainer r = map snd r"

section \<open>The encoding: buckets, schema, cities\<close>

lemmas key_defs =
  KEY_rooms_def KEY_baths_def KEY_furnished_def KEY_area_def KEY_floor_def KEY_age_def
  KEY_mortgaged_def KEY_payment_def CITY_PREFIX_def OTHER_CITY_def

lemmas example_defs = example_payload_def example_cities_def example_columns_def

lemma startswith_iff: "startswith s p \<longleftrightarrow> (\<exists>t. s = p @ t)"
  by (induction s p rule: startswith.induct) auto

lemma keys_not_city:
  "\<not> startswith KEY_rooms CITY_PREFIX" "\<not> startswith KEY_baths CITY_PREFIX"
  "\<not> startswith KEY_furnished CITY_PREFIX" "\<not> startswith KEY_area CITY_PREFIX"
  "\<not> startswith KEY_floor CITY_PREFIX" "\<not> startswith KEY_age CITY_PREFIX"
  "\<not> startswith KEY_mortgaged CITY_PREFIX" "\<not> startswith KEY_payment CITY_PREFIX"
  by (simp_all add: key_defs)

lemma base_cols_city: "startswith c CITY_PREFIX \<Longrightarrow> base_cols p c = None"
  using keys_not_city by (auto simp: base_cols_def)

lemma zero_cols:
  "map_of (map (\<lambda>c. (CITY_PREFIX @ c, 0::real)) cc) k =
     (if k \<in> (\<lambda>c. CITY_PREFIX @ c) ` set cc then Some 0 else None)"
  by (induction cc) auto

lemma city_cols_value:
  "city_cols cc p (CITY_PREFIX @ t) =
     (if city p \<in> set cc then (if t = city p then Some 1 else if t \<in> set cc then Some 0 else None)
      else if OTHER_CITY \<in> set cc
        then (if t = OTHER_CITY then Some 1 else if t \<in> set cc then Some 0 else None)
      else if t \<in> set cc then Some 0 else None)"
  by (auto simp: city_cols_def zero_cols Let_def)

lemma encoded_city_value:
  assumes "(c, v) \<in> set (build_model_input fc cc p)" "startswith c CITY_PREFIX"
  shows "v = (case city_cols cc p c of Some x \<Rightarrow> x | None \<Rightarrow> 0)"
  using assms
  by (auto simp: build_model_input_def reindex_def map_add_def base_cols_city split: option.splits)

text \<open>
  C5. For an age of at least 0, \<open>map_building_age\<close> is the number of the bucket that
  holds the age, the buckets being 0, 1, 2 to 5, 6 to 9, 10 to 19, and 20 or more; and a
  larger age never has a smaller bucket.
\<close>

theorem map_building_age_buckets_monotone:
  assumes "0 \<le> a1" and "a1 < a2"
  shows "(map_building_age a1 = 0 \<longleftrightarrow> a1 = 0)
       \<and> (map_building_age a1 = 1 \<longleftrightarrow> a1 = 1)
       \<and> (map_building_age a1 = 2 \<longleftrightarrow> 2 \<le> a1 \<and> a1 \<le> 5)
       \<and> (map_building_age a1 = 3 \<longleftrightarrow> 6 \<le> a1 \<and> a1 \<le> 9)
       \<and> (map_building_age a1 = 4 \<longleftrightarrow> 10 \<le> a1 \<and> a1 \<le> 19)
       \<and> (map_building_age a1 = 5 \<longleftrightarrow> 20 \<le> a1)
       \<and> map_building_age a1 \<le> map_building_age a2"
  using assms unfolding map_building_age_def by auto

theorem map_building_age_buckets_monotone_witness:
  "(0::int) \<le> 9 \<and> (9::int) < 10 \<and> map_building_age 9 = 3 \<and> map_building_age 10 = 4
   \<and> map_building_age 9 \<le> map_building_age 10"
  using map_building_age_buckets_monotone [of 9 10] by (simp add: map_building_age_def)

text \<open>
  C4. The columns of the vector that \<open>build_model_input\<close> returns are the columns of
  the schema, in the order of the schema; a column of the schema that the encoding does
  not produce is 0, and a produced column that the schema does not have is not in the
  vector.
\<close>

theorem build_model_input_schema_alignment:
  "map fst (build_model_input fc cc p) = fc
   \<and> (\<forall>(c, v) \<in> set (build_model_input fc cc p). c \<notin> produced_cols cc p \<longrightarrow> v = 0)
   \<and> (\<forall>c \<in> produced_cols cc p. c \<notin> set fc \<longrightarrow> c \<notin> fst ` set (build_model_input fc cc p))"
  by (auto simp: build_model_input_def reindex_def produced_cols_def comp_def split: option.splits)

theorem build_model_input_schema_alignment_witness:
  "map fst (build_model_input [KEY_rooms, [120]] example_cities example_payload) = [KEY_rooms, [120]]
   \<and> ([120], 0) \<in> set (build_model_input [KEY_rooms, [120]] example_cities example_payload)
   \<and> [120] \<notin> produced_cols example_cities example_payload
   \<and> KEY_baths \<in> produced_cols example_cities example_payload
   \<and> KEY_baths \<notin> set [KEY_rooms, [120]]
   \<and> KEY_baths \<notin> fst ` set (build_model_input [KEY_rooms, [120]] example_cities example_payload)"
  using build_model_input_schema_alignment [of "[KEY_rooms, [120]]" example_cities example_payload]
  by (simp add: build_model_input_def reindex_def produced_cols_def base_cols_def city_cols_def
      key_defs example_defs)

text \<open>
  C3, as the code has it. A city indicator is a column whose name starts with
  \<open>CITY_PREFIX\<close>. In the encoded vector at most one name of a city indicator has the
  value 1. When the city of the payload is one of the city categories, the indicators of
  the vector are 1 at the column of that city and 0 elsewhere. When it is not, and the
  city "other" is itself one of the city categories, they are 1 at the column of "other"
  and 0 elsewhere. When it is not and "other" is no category either, they are all 0. The
  encoding returns a vector in every case. An indicator is in the vector only when the
  schema has its column.
\<close>

theorem build_model_input_city_one_hot:
  "(\<forall>(c, v) \<in> set (build_model_input fc cc p). \<forall>(c', v') \<in> set (build_model_input fc cc p).
      startswith c CITY_PREFIX \<and> v = 1 \<and> startswith c' CITY_PREFIX \<and> v' = 1 \<longrightarrow> c = c')
   \<and> (city p \<in> set cc \<longrightarrow>
        (\<forall>(c, v) \<in> set (build_model_input fc cc p). startswith c CITY_PREFIX \<longrightarrow>
           v = (if c = CITY_PREFIX @ city p then 1 else 0)))
   \<and> (city p \<notin> set cc \<and> OTHER_CITY \<in> set cc \<longrightarrow>
        (\<forall>(c, v) \<in> set (build_model_input fc cc p). startswith c CITY_PREFIX \<longrightarrow>
           v = (if c = CITY_PREFIX @ OTHER_CITY then 1 else 0)))
   \<and> (city p \<notin> set cc \<and> OTHER_CITY \<notin> set cc \<longrightarrow>
        (\<forall>(c, v) \<in> set (build_model_input fc cc p). startswith c CITY_PREFIX \<longrightarrow> v = 0))"
proof -
  have v: "v = (case city_cols cc p (CITY_PREFIX @ t) of Some x \<Rightarrow> x | None \<Rightarrow> 0)"
    if "(CITY_PREFIX @ t, v) \<in> set (build_model_input fc cc p)" for t v
    using encoded_city_value [OF that] by (simp add: startswith_iff)
  show ?thesis
    by (auto simp: startswith_iff city_cols_value dest!: v split: if_splits)
qed

theorem build_model_input_city_one_hot_witness:
  "city (example_payload\<lparr>city := [65]\<rparr>) \<in> set example_cities
   \<and> build_model_input example_columns example_cities (example_payload\<lparr>city := [65]\<rparr>) =
       [(KEY_rooms, 3), (KEY_area, 120), (CITY_PREFIX @ [65], 1), (CITY_PREFIX @ [66], 0),
        (CITY_PREFIX @ OTHER_CITY, 0)]
   \<and> city example_payload \<notin> set [[65], OTHER_CITY] \<and> OTHER_CITY \<in> set [[65], OTHER_CITY]
   \<and> build_model_input example_columns [[65], OTHER_CITY] example_payload =
       [(KEY_rooms, 3), (KEY_area, 120), (CITY_PREFIX @ [65], 0), (CITY_PREFIX @ [66], 0),
        (CITY_PREFIX @ OTHER_CITY, 1)]
   \<and> city example_payload \<notin> set example_cities \<and> OTHER_CITY \<notin> set example_cities
   \<and> build_model_input example_columns example_cities example_payload =
       [(KEY_rooms, 3), (KEY_area, 120), (CITY_PREFIX @ [65], 0), (CITY_PREFIX @ [66], 0),
        (CITY_PREFIX @ OTHER_CITY, 0)]"
  using build_model_input_city_one_hot [of example_columns example_cities "example_payload\<lparr>city := [65]\<rparr>"]
    build_model_input_city_one_hot [of example_columns "[[65], OTHER_CITY]" example_payload]
    build_model_input_city_one_hot [of example_columns example_cities example_payload]
  by (simp add: build_model_input_def reindex_def base_cols_def city_cols_def
      key_defs example_defs)

text \<open>
  C3 as the specification words it fails: here the schema has the column of the city
  "other" and the city of the payload is no category, yet that column is 0, since "other"
  is not one of the city categories.
\<close>

theorem city_other_column_counterexample:
  "city example_payload \<notin> set example_cities
   \<and> CITY_PREFIX @ OTHER_CITY \<in> set example_columns
   \<and> (CITY_PREFIX @ OTHER_CITY, 1) \<notin> set (build_model_input example_columns example_cities example_payload)
   \<and> (CITY_PREFIX @ OTHER_CITY, 0) \<in> set (build_model_input example_columns example_cities example_payload)"
  by (simp add: build_model_input_def reindex_def base_cols_def city_cols_def
      key_defs example_defs)

section \<open>The grid of the market simulation\<close>

lemma grid_dims_gen:
  "map variant_dims
     [payload\<lparr>rooms := r, baths := b, age := a, floor := f, furnished := fu,
              payment := pa, mortgaged := m\<rparr>.
        r \<leftarrow> A, b \<leftarrow> B, a \<leftarrow> C, f \<leftarrow> D, fu \<leftarrow> E, pa \<leftarrow> F, m \<leftarrow> G]
   = [(r, b, a, f, fu, pa, m). r \<leftarrow> A, b \<leftarrow> B, a \<leftarrow> C, f \<leftarrow> D, fu \<leftarrow> E, pa \<leftarrow> F, m \<leftarrow> G]"
  by (simp add: map_concat comp_def variant_dims_def)

lemma grid_set_gen:
  "set [(r, b, a, f, fu, pa, m). r \<leftarrow> A, b \<leftarrow> B, a \<leftarrow> C, f \<leftarrow> D, fu \<leftarrow> E, pa \<leftarrow> F, m \<leftarrow> G]
   = set A \<times> set B \<times> set C \<times> set D \<times> set E \<times> set F \<times> set G"
  by (auto simp: image_iff)

lemma length_concat_const:
  "(\<And>x. x \<in> set xs \<Longrightarrow> length (f x) = k) \<Longrightarrow> length (concat (map f xs)) = length xs * k"
  by (induction xs) auto

lemma grid_length_gen:
  "length [h r b a f fu pa m. r \<leftarrow> A, b \<leftarrow> B, a \<leftarrow> C, f \<leftarrow> D, fu \<leftarrow> E, pa \<leftarrow> F, m \<leftarrow> G]
   = length A * (length B * (length C * (length D * (length E * (length F * length G)))))"
  by (simp add: length_concat_const)

lemma grid_length: "length (grid_variants p) = 4320"
proof -
  have "length (grid_variants p) =
          length [1, 2, 3, 4 :: int] * (length [1, 2, 3 :: int] * (length [0, 5, 9, 19, 20 :: int] *
          (length [0, 1, 2, 3, 4, 11 :: int] * (length [0, 1 :: int] * (length [0, 1, 2 :: int] *
           length [0, 1 :: int])))))"
    unfolding grid_variants_def by (rule grid_length_gen)
  moreover have "length [1, 2, 3, 4 :: int] = 4" "length [1, 2, 3 :: int] = 3"
    "length [0, 5, 9, 19, 20 :: int] = 5" "length [0, 1, 2, 3, 4, 11 :: int] = 6"
    "length [0, 1 :: int] = 2" "length [0, 1, 2 :: int] = 3"
    by simp_all
  ultimately have "length (grid_variants p) = 4 * (3 * (5 * (6 * (2 * (3 * 2)))))"
    by (simp only:)
  then show ?thesis by simp
qed

lemma grid_dims_set:
  "set (map variant_dims (grid_variants p)) =
     {1, 2, 3, 4} \<times> {1, 2, 3} \<times> {0, 5, 9, 19, 20} \<times> {0, 1, 2, 3, 4, 11} \<times> {0, 1} \<times> {0, 1, 2} \<times> {0, 1}"
proof -
  have "map variant_dims (grid_variants p) =
          [(r, b, a, f, fu, pa, m). r \<leftarrow> [1, 2, 3, 4], b \<leftarrow> [1, 2, 3], a \<leftarrow> [0, 5, 9, 19, 20],
             f \<leftarrow> [0, 1, 2, 3, 4, 11], fu \<leftarrow> [0, 1], pa \<leftarrow> [0, 1, 2], m \<leftarrow> [0, 1]]"
    unfolding grid_variants_def by (rule grid_dims_gen)
  then show ?thesis
    by (simp only: grid_set_gen list.set)
qed

lemma grid_dims_card:
  "card ({1, 2, 3, 4} \<times> {1, 2, 3} \<times> {0, 5, 9, 19, 20} \<times> {0, 1, 2, 3, 4, 11} \<times> {0, 1} \<times> {0, 1, 2} \<times> {0::int, 1}
     :: (int \<times> int \<times> int \<times> int \<times> int \<times> int \<times> int) set) = 4320"
proof -
  have "card {1, 2, 3, 4::int} = 4" "card {1, 2, 3::int} = 3" "card {0, 5, 9, 19, 20::int} = 5"
    "card {0, 1, 2, 3, 4, 11::int} = 6" "card {0, 1::int} = 2" "card {0, 1, 2::int} = 3"
    by simp_all
  then show ?thesis
    by (simp only: card_cartesian_product)
qed

lemma grid_dims_distinct: "distinct (map variant_dims (grid_variants p))"
  by (rule card_distinct) (simp only: grid_dims_set grid_dims_card length_map grid_length)

lemma grid_fixed_gen:
  "v \<in> set [payload\<lparr>rooms := r, baths := b, age := a, floor := f, furnished := fu,
              payment := pa, mortgaged := m\<rparr>.
        r \<leftarrow> A, b \<leftarrow> B, a \<leftarrow> C, f \<leftarrow> D, fu \<leftarrow> E, pa \<leftarrow> F, m \<leftarrow> G]
   \<Longrightarrow> city v = city payload \<and> area v = area payload \<and> parking v = parking payload"
  by auto

lemma grid_fixed:
  "v \<in> set (grid_variants p) \<Longrightarrow> city v = city p \<and> area v = area p \<and> parking v = parking p"
  unfolding grid_variants_def by (rule grid_fixed_gen)

lemma grid_mem_gen:
  "r \<in> set A \<Longrightarrow> b \<in> set B \<Longrightarrow> a \<in> set C \<Longrightarrow> f \<in> set D \<Longrightarrow> fu \<in> set E \<Longrightarrow> pa \<in> set F
   \<Longrightarrow> m \<in> set G
   \<Longrightarrow> h r b a f fu pa m \<in> set [h r b a f fu pa m. r \<leftarrow> A, b \<leftarrow> B, a \<leftarrow> C, f \<leftarrow> D, fu \<leftarrow> E, pa \<leftarrow> F, m \<leftarrow> G]"
  by (simp add: image_iff) blast

lemma predicted_prices_length: "length (predicted_prices m fc cc p) = 4320"
  by (simp add: predicted_prices_def grid_length)

text \<open>
  C2. The simulation builds 4320 variants and encodes each. Their seven looped fields
  are pairwise different and range over the whole grid: rooms 1 to 4, bathrooms 1 to 3,
  ages 0, 5, 9, 19, 20, floors 0 to 4 and 11, furnished 0 or 1, payment 0 to 2, mortgaged
  0 or 1. Every variant has the city, the area and the parking flag of the request.
\<close>

theorem grid_variants_full_grid:
  "length (grid_variants p) = 4320
   \<and> length (map (build_model_input fc cc) (grid_variants p)) = 4320
   \<and> distinct (map variant_dims (grid_variants p))
   \<and> set (map variant_dims (grid_variants p)) =
       {1, 2, 3, 4} \<times> {1, 2, 3} \<times> {0, 5, 9, 19, 20} \<times> {0, 1, 2, 3, 4, 11} \<times> {0, 1} \<times> {0, 1, 2} \<times> {0, 1}
   \<and> (\<forall>v \<in> set (grid_variants p). city v = city p \<and> area v = area p \<and> parking v = parking p)"
proof (intro conjI ballI)
  show "length (grid_variants p) = 4320"
    by (rule grid_length)
  show "length (map (build_model_input fc cc) (grid_variants p)) = 4320"
    by (simp only: length_map grid_length)
  show "distinct (map variant_dims (grid_variants p))"
    by (rule grid_dims_distinct)
  show "set (map variant_dims (grid_variants p)) =
       {1, 2, 3, 4} \<times> {1, 2, 3} \<times> {0, 5, 9, 19, 20} \<times> {0, 1, 2, 3, 4, 11} \<times> {0, 1} \<times> {0, 1, 2} \<times> {0, 1}"
    by (rule grid_dims_set)
next
  fix v assume v: "v \<in> set (grid_variants p)"
  show "city v = city p" using grid_fixed [OF v] by simp
  show "area v = area p" using grid_fixed [OF v] by simp
  show "parking v = parking p" using grid_fixed [OF v] by simp
qed

theorem grid_variants_full_grid_witness:
  "length (grid_variants example_payload) = 4320
   \<and> example_payload\<lparr>rooms := 4, baths := 1, age := 19, floor := 11, furnished := 0,
                   payment := 2, mortgaged := 1\<rparr> \<in> set (grid_variants example_payload)
   \<and> city (example_payload\<lparr>rooms := 4, baths := 1, age := 19, floor := 11, furnished := 0,
                   payment := 2, mortgaged := 1\<rparr>) = city example_payload"
proof -
  let ?v = "example_payload\<lparr>rooms := 4, baths := 1, age := 19, floor := 11, furnished := 0,
                   payment := 2, mortgaged := 1\<rparr>"
  note full = grid_variants_full_grid
    [where p = example_payload and fc = example_columns and cc = example_cities]
  have mem: "?v \<in> set (grid_variants example_payload)"
    unfolding grid_variants_def
    by (rule grid_mem_gen [where h = "\<lambda>r b a f fu pa m. example_payload\<lparr>rooms := r, baths := b,
          age := a, floor := f, furnished := fu, payment := pa, mortgaged := m\<rparr>"
          and r = 4 and b = 1 and a = 19 and f = 11 and fu = 0 and pa = 2 and m = 1]) simp_all
  have len: "length (grid_variants example_payload) = 4320"
    using full by (rule conjunct1)
  have "\<forall>v \<in> set (grid_variants example_payload).
          city v = city example_payload \<and> area v = area example_payload
          \<and> parking v = parking example_payload"
    using full by (elim conjE)
  from this mem have "city ?v = city example_payload \<and> area ?v = area example_payload
          \<and> parking ?v = parking example_payload"
    by (rule bspec)
  then have "city ?v = city example_payload"
    by (rule conjunct1)
  with mem len show ?thesis
    by (intro conjI)
qed

lemma build_model_input_parking:
  "build_model_input fc cc (v\<lparr>parking := flag\<rparr>) = build_model_input fc cc v"
  by (simp add: build_model_input_def base_cols_def city_cols_def Let_def)

lemma build_model_input_fields:
  "rooms v = rooms w \<Longrightarrow> baths v = baths w \<Longrightarrow> furnished v = furnished w \<Longrightarrow> area v = area w
   \<Longrightarrow> floor v = floor w \<Longrightarrow> age v = age w \<Longrightarrow> mortgaged v = mortgaged w
   \<Longrightarrow> payment v = payment w \<Longrightarrow> city v = city w
   \<Longrightarrow> build_model_input fc cc v = build_model_input fc cc w"
  by (simp add: build_model_input_def base_cols_def city_cols_def Let_def)

lemma grid_map_gen:
  "map g [h r b a f fu pa m. r \<leftarrow> A, b \<leftarrow> B, a \<leftarrow> C, f \<leftarrow> D, fu \<leftarrow> E, pa \<leftarrow> F, m \<leftarrow> G]
   = [g (h r b a f fu pa m). r \<leftarrow> A, b \<leftarrow> B, a \<leftarrow> C, f \<leftarrow> D, fu \<leftarrow> E, pa \<leftarrow> F, m \<leftarrow> G]"
  by (simp add: map_concat comp_def)

lemma grid_variants_parking:
  "map (build_model_input fc cc) (grid_variants (p\<lparr>parking := flag\<rparr>)) =
   map (build_model_input fc cc) (grid_variants p)"
proof -
  have "build_model_input fc cc
          (p\<lparr>parking := flag, rooms := r, baths := b, age := a, floor := f, furnished := fu,
             payment := pa, mortgaged := m\<rparr>) =
        build_model_input fc cc
          (p\<lparr>rooms := r, baths := b, age := a, floor := f, furnished := fu,
             payment := pa, mortgaged := m\<rparr>)" for r b a f fu pa m
    by (rule build_model_input_fields) simp_all
  then show ?thesis
    unfolding grid_variants_def grid_map_gen by (simp only:)
qed

text \<open>
  C10. Two payloads that differ only in the parking flag have the same encoded vector
  and the same simulated market prices: the flag reaches neither the features of the
  model nor the 4320 prices.
\<close>

theorem parking_not_in_features:
  "build_model_input fc cc (p\<lparr>parking := flag\<rparr>) = build_model_input fc cc p
   \<and> predicted_prices m fc cc (p\<lparr>parking := flag\<rparr>) = predicted_prices m fc cc p"
  using grid_variants_parking [where fc = fc and cc = cc and p = p and flag = flag]
  by (simp add: predicted_prices_def build_model_input_parking)

section \<open>The response of \<open>judge_price\<close> and the judgment\<close>

lemma two_decimals_round2: "two_decimals (round2 x)"
  by (simp add: two_decimals_def round2_def)

lemma np_min_nonempty: "a \<noteq> [] \<Longrightarrow> np_min a = Some (Min (set a))"
  by (cases a) (simp_all add: np_min_def Min.set_eq_fold [symmetric])

lemma np_max_nonempty: "a \<noteq> [] \<Longrightarrow> np_max a = Some (Max (set a))"
  by (cases a) (simp_all add: np_max_def Max.set_eq_fold [symmetric])

lemma predicted_prices_nonempty: "predicted_prices m fc cc p \<noteq> []"
  using predicted_prices_length [of m fc cc p] by auto

lemma judge_price_returns:
  "judge_price m fc cc payload =
     Some \<lparr> out_judgment_key =
              judgment_key (listed_price payload)
                (if truthy (parking payload) then m (build_model_input fc cc payload) * 1.011
                 else m (build_model_input fc cc payload))
                (Min (set (predicted_prices m fc cc payload)))
                (np_mean (predicted_prices m fc cc payload))
                (Max (set (predicted_prices m fc cc payload))),
            out_listed_price = round2 (listed_price payload),
            out_predicted_price =
              round2 (if truthy (parking payload) then m (build_model_input fc cc payload) * 1.011
                      else m (build_model_input fc cc payload)),
            out_market_mean = round2 (np_mean (predicted_prices m fc cc payload)),
            out_market_median = round2 (np_median (predicted_prices m fc cc payload)),
            out_price_q1 = round2 (np_percentile (predicted_prices m fc cc payload) 25),
            out_price_q3 = round2 (np_percentile (predicted_prices m fc cc payload) 75),
            out_price_range = [round2 (Min (set (predicted_prices m fc cc payload))),
                               round2 (Max (set (predicted_prices m fc cc payload)))],
            out_hist_counts = fst (np_histogram (predicted_prices m fc cc payload) 10),
            out_hist_edges = snd (np_histogram (predicted_prices m fc cc payload) 10) \<rparr>"
  by (simp add: judge_price_def Let_def case_prod_beta
      np_min_nonempty [OF predicted_prices_nonempty] np_max_nonempty [OF predicted_prices_nonempty])

text \<open>
  C1. For any listed price, predicted price, minimum, mean and maximum, the chain of
  \<open>judge_price\<close> gives the label of the first rule that matches in the ordered list
  of the seven rules, and a label is always returned. The seven rules carry six labels,
  since the third and the fifth both give \<open>PREDICTED_PRICE\<close>. In the response of
  \<open>judge_price\<close> the label is the one the rules give for the listed price, the
  predicted price with the surcharge for parking, and the minimum, the mean and the
  maximum of the simulated prices.
\<close>

theorem judgment_key_first_match:
  "first_match (judgment_rules l p mn mean mx) = Some (judgment_key l p mn mean mx)
   \<and> judgment_key l p mn mean mx \<in>
       {SUSPICIOUSLY_UNDERPRICED, FAIR_LOW, PREDICTED_PRICE, GOOD_DEAL, FAIR_PRICE, OVERPRICED}
   \<and> map_option out_judgment_key (judge_price m fc cc j) =
       first_match
         (judgment_rules (listed_price j)
            (if truthy (parking j) then m (build_model_input fc cc j) * 1.011
             else m (build_model_input fc cc j))
            (Min (set (predicted_prices m fc cc j)))
            (np_mean (predicted_prices m fc cc j))
            (Max (set (predicted_prices m fc cc j))))"
proof -
  have rules: "first_match (judgment_rules l p mn mean mx) = Some (judgment_key l p mn mean mx)"
    for l p mn mean mx
    by (simp add: judgment_rules_def judgment_key_def mult.commute)
  have "judgment_key l p mn mean mx \<in>
       {SUSPICIOUSLY_UNDERPRICED, FAIR_LOW, PREDICTED_PRICE, GOOD_DEAL, FAIR_PRICE, OVERPRICED}"
    by (simp add: judgment_key_def)
  moreover have "map_option out_judgment_key (judge_price m fc cc j) =
       Some (judgment_key (listed_price j)
            (if truthy (parking j) then m (build_model_input fc cc j) * 1.011
             else m (build_model_input fc cc j))
            (Min (set (predicted_prices m fc cc j)))
            (np_mean (predicted_prices m fc cc j))
            (Max (set (predicted_prices m fc cc j))))"
    by (simp add: judge_price_returns)
  ultimately show ?thesis
    by (simp only: rules simp_thms)
qed

section \<open>The histogram\<close>

lemma length_linspace: "length (linspace s t n) = n"
  by (simp add: linspace_def)

lemma nth_linspace:
  assumes "0 < bins" "i \<le> bins"
  shows "linspace s t (bins + 1) ! i = s + of_nat i * ((t - s) / of_nat bins)"
proof (cases "i = bins")
  case True
  with assms show ?thesis by (simp add: linspace_def)
next
  case False
  with assms have "i < bins" by simp
  then show ?thesis
    by (simp add: linspace_def nth_list_update del: upt_Suc)
qed

lemma half_open_bins_sum:
  fixes e :: "nat \<Rightarrow> real"
  assumes "\<And>i. i < n \<Longrightarrow> e i \<le> e (Suc i)" and "e 0 \<le> x"
  shows "sum_list (map (\<lambda>i. if e i \<le> x \<and> x < e (Suc i) then 1 else 0) [0..<n]) =
           (if x < e n then 1 else 0 :: nat)"
  using assms
proof (induction n)
  case 0
  then show ?case by simp
next
  case (Suc n)
  have mono: "e n \<le> e (Suc n)" using Suc.prems(1) by simp
  have "sum_list (map (\<lambda>i. if e i \<le> x \<and> x < e (Suc i) then 1 else 0) [0..<n]) =
           (if x < e n then 1 else 0 :: nat)"
    using Suc.IH Suc.prems by simp
  with mono show ?case by auto
qed

lemma bins_partition:
  fixes e :: "nat \<Rightarrow> real"
  assumes n: "0 < n" and mono: "\<And>i. i < n \<Longrightarrow> e i \<le> e (Suc i)"
    and lo: "e 0 \<le> x" and hi: "x \<le> e n"
  shows "sum_list (map (\<lambda>i. if e i \<le> x \<and> (if i = n - 1 then x \<le> e (Suc i) else x < e (Suc i))
                              then 1 else 0) [0..<n]) = (1 :: nat)"
proof -
  from n obtain k where k: "n = Suc k" by (cases n) auto
  define F :: "nat \<Rightarrow> nat" where
    "F i = (if e i \<le> x \<and> (if i = k then x \<le> e (Suc i) else x < e (Suc i)) then 1 else 0)" for i
  have "map F [0..<k] = map (\<lambda>i. if e i \<le> x \<and> x < e (Suc i) then 1 else 0) [0..<k]"
    by (rule map_cong) (simp_all add: F_def)
  moreover have "sum_list (map (\<lambda>i. if e i \<le> x \<and> x < e (Suc i) then 1 else 0) [0..<k]) =
           (if x < e k then 1 else 0 :: nat)"
  proof (rule half_open_bins_sum)
    fix i assume "i < k"
    then show "e i \<le> e (Suc i)" using mono by (simp add: k)
  qed (rule lo)
  ultimately have front: "sum_list (map F [0..<k]) = (if x < e k then 1 else 0)"
    by (simp only:)
  have last: "F k = (if e k \<le> x then 1 else 0)"
    using hi by (simp add: F_def k)
  have "sum_list (map F [0..<n]) = sum_list (map F [0..<k]) + F k"
    by (simp add: k)
  also have "\<dots> = 1"
    unfolding front last by simp
  finally have total: "sum_list (map F [0..<n]) = 1" .
  have "map (\<lambda>i. if e i \<le> x \<and> (if i = n - 1 then x \<le> e (Suc i) else x < e (Suc i))
                   then 1 else 0) [0..<n] = map F [0..<n]"
    by (rule map_cong) (simp_all add: F_def k)
  with total show ?thesis
    by (simp only:)
qed

lemma counts_sum:
  assumes "\<And>x. x \<in> set a \<Longrightarrow> sum_list (map (\<lambda>i. if P i x then 1 else 0) is) = (1 :: nat)"
  shows "sum_list (map (\<lambda>i. length (filter (P i) a)) is) = length a"
  using assms
proof (induction a)
  case Nil
  then show ?case by simp
next
  case (Cons x xs)
  have "sum_list (map (\<lambda>i. length (filter (P i) (x # xs))) is) =
        sum_list (map (\<lambda>i. (if P i x then 1 else 0) + length (filter (P i) xs)) is)"
    by (rule arg_cong [where f = sum_list], rule map_cong) auto
  also have "\<dots> = sum_list (map (\<lambda>i. if P i x then 1 else 0) is)
                 + sum_list (map (\<lambda>i. length (filter (P i) xs)) is)"
    by (simp add: sum_list_addf)
  also have "\<dots> = 1 + length xs"
    using Cons by simp
  finally show ?case by simp
qed

lemma hist_range_nonempty:
  "a \<noteq> [] \<Longrightarrow> hist_range a =
     (if Min (set a) = Max (set a) then (Min (set a) - 1 / 2, Max (set a) + 1 / 2)
      else (Min (set a), Max (set a)))"
  by (cases a) (simp_all add: hist_range_def Min.set_eq_fold [symmetric] Max.set_eq_fold [symmetric])

lemma hist_range_bounds:
  assumes "x \<in> set a"
  shows "fst (hist_range a) \<le> x \<and> x \<le> snd (hist_range a) \<and> fst (hist_range a) < snd (hist_range a)"
proof -
  from assms have ne: "a \<noteq> []" by auto
  have "Min (set a) \<le> x" "x \<le> Max (set a)"
    using assms by simp_all
  then show ?thesis
    by (auto simp: hist_range_nonempty [OF ne])
qed

lemma np_histogram_lengths:
  "length (fst (np_histogram a bins)) = bins \<and> length (snd (np_histogram a bins)) = bins + 1"
  by (simp add: np_histogram_def case_prod_beta Let_def length_linspace)

lemma np_histogram_conservation:
  assumes bins: "0 < bins"
  shows "sum_list (fst (np_histogram a bins)) = length a"
proof -
  define s t where "s = fst (hist_range a)" and "t = snd (hist_range a)"
  define edges where "edges = linspace s t (bins + 1)"
  define e where "e i = s + of_nat i * ((t - s) / of_nat bins)" for i
  have counts: "fst (np_histogram a bins) =
      map (\<lambda>i. length (filter (in_bin edges bins i) a)) [0..<bins]"
    by (simp add: np_histogram_def case_prod_beta Let_def s_def t_def edges_def)
  have nth: "edges ! i = e i" if "i \<le> bins" for i
    unfolding edges_def e_def using bins that by (rule nth_linspace)
  have one: "sum_list (map (\<lambda>i. if in_bin edges bins i x then 1 else 0) [0..<bins]) = (1 :: nat)"
    if x: "x \<in> set a" for x
  proof -
    from hist_range_bounds [OF x] have st: "s \<le> x" "x \<le> t" "s < t"
      by (simp_all add: s_def t_def)
    have "map (\<lambda>i. if in_bin edges bins i x then 1 else 0 :: nat) [0..<bins] =
          map (\<lambda>i. if e i \<le> x \<and> (if i = bins - 1 then x \<le> e (Suc i) else x < e (Suc i))
                     then 1 else 0) [0..<bins]"
      by (rule map_cong) (auto simp: in_bin_def nth)
    moreover have "sum_list (map (\<lambda>i. if e i \<le> x \<and> (if i = bins - 1 then x \<le> e (Suc i) else x < e (Suc i))
                     then 1 else 0) [0..<bins]) = (1 :: nat)"
    proof (rule bins_partition [OF bins])
      fix i assume "i < bins"
      have "0 \<le> (t - s) / of_nat bins" using st by simp
      moreover have "e (Suc i) = e i + (t - s) / of_nat bins"
        by (simp add: e_def distrib_right add_divide_distrib)
      ultimately show "e i \<le> e (Suc i)" by simp
    next
      show "e 0 \<le> x" using st by (simp add: e_def)
    next
      show "x \<le> e bins" using st bins by (simp add: e_def)
    qed
    ultimately show ?thesis by (simp only:)
  qed
  show ?thesis
    unfolding counts by (rule counts_sum) (rule one)
qed

text \<open>
  C9. \<open>judge_price\<close> returns a response whose histogram has 10 counts and 11 edges,
  and the counts add up to the 4320 simulated prices.
\<close>

theorem judge_price_histogram_conservation:
  "\<exists>r. judge_price m fc cc payload = Some r
     \<and> length (out_hist_counts r) = 10
     \<and> length (out_hist_edges r) = 11
     \<and> sum_list (out_hist_counts r) = 4320"
  by (simp add: judge_price_returns np_histogram_lengths np_histogram_conservation
      predicted_prices_length)

text \<open>
  C7, as the code has it. In the response of \<open>judge_price\<close> the listed price, the
  predicted price, the mean, the median, both quartiles and both ends of the price range
  are rounded to two decimals. The edges of the histogram are the edges that
  \<open>np.histogram\<close> computed, as they are.
\<close>

theorem judge_price_rounding:
  "\<exists>r. judge_price m fc cc payload = Some r
     \<and> out_listed_price r = round2 (listed_price payload)
     \<and> out_market_mean r = round2 (np_mean (predicted_prices m fc cc payload))
     \<and> out_market_median r = round2 (np_median (predicted_prices m fc cc payload))
     \<and> out_price_q1 r = round2 (np_percentile (predicted_prices m fc cc payload) 25)
     \<and> out_price_q3 r = round2 (np_percentile (predicted_prices m fc cc payload) 75)
     \<and> out_price_range r = [round2 (Min (set (predicted_prices m fc cc payload))),
                             round2 (Max (set (predicted_prices m fc cc payload)))]
     \<and> list_all two_decimals
          ([out_listed_price r, out_predicted_price r, out_market_mean r, out_market_median r,
            out_price_q1 r, out_price_q3 r] @ out_price_range r)
     \<and> out_hist_edges r = snd (np_histogram (predicted_prices m fc cc payload) 10)"
  by (simp add: judge_price_returns two_decimals_round2)

lemma rooms_grid: "rooms ` set (grid_variants p) = {1, 2, 3, 4}"
proof -
  have "rooms ` set (grid_variants p) = fst ` set (map variant_dims (grid_variants p))"
    by (simp add: image_image variant_dims_def)
  also have "\<dots> = {1, 2, 3, 4}"
    unfolding grid_dims_set by (simp only: fst_image_times) simp
  finally show ?thesis .
qed

lemma stub_model_rooms: "stub_model (build_model_input [KEY_rooms] [] v) = of_int (rooms v) / 8"
  by (simp add: stub_model_def build_model_input_def reindex_def base_cols_def city_cols_def
      map_add_def)

lemma stub_prices_set:
  "set (predicted_prices stub_model [KEY_rooms] [] p) = {1 / 8, 1 / 4, 3 / 8, 1 / 2}"
proof -
  have "set (predicted_prices stub_model [KEY_rooms] [] p) =
          (\<lambda>r. of_int r / 8) ` (rooms ` set (grid_variants p))"
    by (simp add: predicted_prices_def image_image stub_model_rooms)
  also have "\<dots> = {1 / 8, 1 / 4, 3 / 8, 1 / 2}"
    unfolding rooms_grid by simp
  finally show ?thesis .
qed

lemma stub_hist_range: "hist_range (predicted_prices stub_model [KEY_rooms] [] p) = (1 / 8, 1 / 2)"
  by (simp add: hist_range_nonempty [OF predicted_prices_nonempty] stub_prices_set)

lemma upt_11: "[0..<11] = [0, 1, 2, 3, 4, 5, 6, 7, 8, 9, 10]"
  by (simp add: upt_rec)

lemma np_histogram_edges:
  "snd (np_histogram a bins) = linspace (fst (hist_range a)) (snd (hist_range a)) (bins + 1)"
  by (simp add: np_histogram_def case_prod_beta Let_def)

lemma stub_edges:
  "snd (np_histogram (predicted_prices stub_model [KEY_rooms] [] p) 10) =
     [1 / 8, 13 / 80, 1 / 5, 19 / 80, 11 / 40, 5 / 16, 7 / 20, 31 / 80, 17 / 40, 37 / 80, 1 / 2]"
  by (simp add: np_histogram_edges stub_hist_range linspace_def upt_11)

text \<open>
  C7 as the specification words it fails on the edges: with the model that prices a row
  at an eighth of its rooms, the simulated prices range from 1/8 to 1/2 and the second
  edge is 13/80 = 0.1625.
\<close>

theorem hist_edges_not_rounded_counterexample:
  "map_option out_hist_edges (judge_price stub_model [KEY_rooms] [] example_payload) =
     Some [1 / 8, 13 / 80, 1 / 5, 19 / 80, 11 / 40, 5 / 16, 7 / 20, 31 / 80, 17 / 40, 37 / 80, 1 / 2]
   \<and> \<not> two_decimals (13 / 80)"
  by (simp add: judge_price_returns stub_edges two_decimals_def)

section \<open>The attributions\<close>

lemma filter_key_distinct:
  "distinct (map fst df) \<Longrightarrow> (f, v) \<in> set df \<Longrightarrow> filter (\<lambda>(c, v). c = f) df = [(f, v)]"
proof (induction df)
  case Nil
  then show ?case by simp
next
  case (Cons a df)
  show ?case
  proof (cases "fst a = f")
    case True
    with Cons.prems have "f \<notin> fst ` set df" by auto
    then have "filter (\<lambda>(c, v). c = f) df = []"
      by (force simp: filter_empty_conv)
    moreover from True Cons.prems have "a = (f, v)"
      by (cases a) force
    ultimately show ?thesis by simp
  next
    case False
    with Cons show ?thesis by (cases a) auto
  qed
qed

lemma iloc0_distinct:
  "distinct (map fst df) \<Longrightarrow> (f, v) \<in> set df \<Longrightarrow> iloc0 df f = Some v"
  by (simp add: iloc0_def filter_key_distinct)

lemma active_cities_total:
  "distinct (map fst df) \<Longrightarrow> set fs \<subseteq> fst ` set df \<Longrightarrow> \<exists>act. active_cities df fs = Some act"
proof (induction fs)
  case Nil
  then show ?case by simp
next
  case (Cons f fs)
  then obtain v where "(f, v) \<in> set df" by auto
  with Cons.prems have "iloc0 df f = Some v" by (simp add: iloc0_distinct)
  moreover from Cons obtain act where "active_cities df fs = Some act" by auto
  ultimately show ?case by simp
qed

lemmas group_defs =
  GROUP_area_rooms_def GROUP_baths_def GROUP_condition_def GROUP_payment_def GROUP_floor_def
  GROUP_city_def

lemma group_names_not_city:
  "GROUP_area_rooms \<noteq> GROUP_city" "GROUP_baths \<noteq> GROUP_city" "GROUP_condition \<noteq> GROUP_city"
  "GROUP_payment \<noteq> GROUP_city" "GROUP_floor \<noteq> GROUP_city"
  by (simp_all add: group_defs)

lemma grouped_sums_groups:
  assumes "active_cities df (filter (\<lambda>col. startswith col CITY_PREFIX) fc) = Some act"
  shows "grouped_sums (FEATURE_GROUPS fc) shap df =
     Some [(GROUP_area_rooms, shap_sum (feature_shap df shap) [KEY_area, KEY_rooms]),
           (GROUP_baths, shap_sum (feature_shap df shap) [KEY_baths]),
           (GROUP_condition, shap_sum (feature_shap df shap) [KEY_furnished, KEY_age, KEY_mortgaged]),
           (GROUP_payment, shap_sum (feature_shap df shap) [KEY_payment]),
           (GROUP_floor, shap_sum (feature_shap df shap) [KEY_floor]),
           (GROUP_city, shap_sum (feature_shap df shap) act)]"
  using assms by (simp add: FEATURE_GROUPS_def group_names_not_city)

lemma grouped_sums_names:
  "grouped_sums groups shap df = Some grouped \<Longrightarrow> map fst grouped = map fst groups"
proof (induction groups arbitrary: grouped)
  case Nil
  then show ?case by simp
next
  case (Cons g groups)
  then show ?case
    by (cases g) (auto split: bind_splits if_splits)
qed

lemma grouped_sums_encoded:
  assumes "distinct fc"
  shows "\<exists>grouped. grouped_sums (FEATURE_GROUPS fc) shap (build_model_input fc cc p) = Some grouped"
proof -
  have cols: "map fst (build_model_input fc cc p) = fc"
    by (simp add: build_model_input_def reindex_def comp_def)
  have sub: "set (filter (\<lambda>col. startswith col CITY_PREFIX) fc)
               \<subseteq> fst ` set (build_model_input fc cc p)"
    using cols by (metis filter_is_subset set_map)
  have "distinct (map fst (build_model_input fc cc p))"
    using assms cols by simp
  from active_cities_total [OF this sub] obtain act where
    "active_cities (build_model_input fc cc p) (filter (\<lambda>col. startswith col CITY_PREFIX) fc) = Some act"
    by blast
  then show ?thesis
    by (simp add: grouped_sums_groups)
qed

lemma round_half_even_error: "\<bar>of_int (round_half_even z) - z\<bar> \<le> 1 / 2"
  unfolding round_half_even_def Let_def by (auto simp: abs_if) linarith+

lemma round2_error: "\<bar>round2 y - y\<bar> \<le> 1 / 200"
proof -
  define e where "e = of_int (round_half_even (y * 100)) - y * 100"
  have e: "\<bar>e\<bar> \<le> 1 / 2"
    unfolding e_def by (rule round_half_even_error)
  have "round2 y - y = e / 100"
    by (simp add: round2_def e_def diff_divide_distrib)
  then have "\<bar>round2 y - y\<bar> = \<bar>e\<bar> / 100"
    by (simp only: abs_divide abs_numeral)
  with e show ?thesis
    by linarith
qed

lemma round2_zero: "round2 0 = 0"
  by (simp add: round2_def round_half_even_def)

lemma abs_sum_rounded:
  "\<bar>(\<Sum>y\<leftarrow>ys. \<bar>round2 y\<bar>) - (\<Sum>y\<leftarrow>ys. \<bar>y\<bar>)\<bar> \<le> of_nat (length ys) / 200"
proof (induction ys)
  case Nil
  then show ?case by simp
next
  case (Cons y ys)
  define A where "A = (\<Sum>y\<leftarrow>ys. \<bar>round2 y\<bar>) - (\<Sum>y\<leftarrow>ys. \<bar>y\<bar>)"
  define b where "b = \<bar>round2 y\<bar> - \<bar>y\<bar>"
  have b: "\<bar>b\<bar> \<le> 1 / 200"
    unfolding b_def using round2_error [of y] by linarith
  have A: "\<bar>A\<bar> \<le> of_nat (length ys) / 200"
    unfolding A_def by (rule Cons.IH)
  have "(\<Sum>y\<leftarrow>y # ys. \<bar>round2 y\<bar>) - (\<Sum>y\<leftarrow>y # ys. \<bar>y\<bar>) = b + A"
    by (simp add: A_def b_def)
  moreover have "\<bar>b + A\<bar> \<le> \<bar>b\<bar> + \<bar>A\<bar>"
    by (rule abs_triangle_ineq)
  moreover have "of_nat (length (y # ys)) / 200 = 1 / 200 + of_nat (length ys) / (200 :: real)"
    by (simp add: add_divide_distrib)
  ultimately show ?case
    using b A by (simp only:)
qed

lemma ranked_values:
  "map snd (ranked_percentages grouped) =
     map (\<lambda>v. round2 (v / (if (\<Sum>(k, v)\<leftarrow>grouped. \<bar>v\<bar>) = 0 then 1 / 10 ^ 9
                             else (\<Sum>(k, v)\<leftarrow>grouped. \<bar>v\<bar>)) * 100)) (map snd grouped)"
  by (simp add: ranked_percentages_def Let_def comp_def case_prod_beta)

lemma sum_abs_snd: "(\<Sum>(k, v)\<leftarrow>xs. \<bar>v :: real\<bar>) = (\<Sum>v\<leftarrow>map snd xs. \<bar>v\<bar>)"
  by (simp add: comp_def case_prod_unfold)

lemma exact_percentages:
  fixes vs :: "real list"
  assumes "(\<Sum>v\<leftarrow>vs. \<bar>v\<bar>) \<noteq> 0"
  shows "(\<Sum>y\<leftarrow>map (\<lambda>v. v / (\<Sum>v\<leftarrow>vs. \<bar>v\<bar>) * 100) vs. \<bar>y\<bar>) = 100"
proof -
  define S where "S = (\<Sum>v\<leftarrow>vs. \<bar>v\<bar>)"
  have "0 \<le> S" unfolding S_def by (rule sum_list_nonneg) auto
  with assms have S: "0 < S" by (simp add: S_def)
  have "(\<Sum>y\<leftarrow>map (\<lambda>v. v / S * 100) vs. \<bar>y\<bar>) = (\<Sum>v\<leftarrow>vs. \<bar>v\<bar> * (100 / S))"
    using S by (simp add: comp_def abs_mult abs_divide)
  also have "\<dots> = S * (100 / S)"
    unfolding S_def by (rule sum_list_mult_const)
  also have "\<dots> = 100" using S by simp
  finally show ?thesis by (simp add: S_def)
qed

lemma ranked_sum_near_100:
  assumes "\<exists>v \<in> snd ` set grouped. v \<noteq> 0"
  shows "\<bar>(\<Sum>(k, v)\<leftarrow>ranked_percentages grouped. \<bar>v\<bar>) - 100\<bar> \<le> of_nat (length grouped) / 200"
proof -
  define vs where "vs = map snd grouped"
  define S where "S = (\<Sum>v\<leftarrow>vs. \<bar>v\<bar>)"
  have "S \<noteq> 0"
  proof
    assume "S = 0"
    then have "\<forall>v \<in> set vs. \<bar>v\<bar> = 0"
      unfolding S_def by (subst (asm) sum_list_nonneg_eq_0_iff) auto
    with assms show False by (auto simp: vs_def)
  qed
  then have exact: "(\<Sum>y\<leftarrow>map (\<lambda>v. v / S * 100) vs. \<bar>y\<bar>) = 100"
    unfolding S_def by (rule exact_percentages)
  have "map snd (ranked_percentages grouped) = map round2 (map (\<lambda>v. v / S * 100) vs)"
    using \<open>S \<noteq> 0\<close> by (simp add: ranked_values sum_abs_snd S_def vs_def comp_def)
  then have "(\<Sum>(k, v)\<leftarrow>ranked_percentages grouped. \<bar>v\<bar>) =
               (\<Sum>y\<leftarrow>map (\<lambda>v. v / S * 100) vs. \<bar>round2 y\<bar>)"
    by (simp add: sum_abs_snd comp_def)
  with abs_sum_rounded [of "map (\<lambda>v. v / S * 100) vs"] exact show ?thesis
    by (simp add: vs_def)
qed

lemma ranked_all_zero:
  assumes "\<forall>v \<in> snd ` set grouped. v = 0"
  shows "\<forall>v \<in> snd ` set (ranked_percentages grouped). v = 0"
proof -
  have "set (map snd (ranked_percentages grouped)) \<subseteq> {0}"
    unfolding ranked_values using assms by (auto simp: round2_zero)
  then show ?thesis by auto
qed

lemma sort_abs_desc_props:
  "mset (sort_abs_desc xs) = mset xs
   \<and> sorted_wrt (\<lambda>a b. \<bar>snd b\<bar> \<le> \<bar>snd a\<bar>) (sort_abs_desc xs)
   \<and> (\<forall>a. filter (\<lambda>(k, v). \<bar>v\<bar> = a) (sort_abs_desc xs) = filter (\<lambda>(k, v). \<bar>v\<bar> = a) xs)"
proof (intro conjI allI)
  show "mset (sort_abs_desc xs) = mset xs"
    by (simp add: sort_abs_desc_def)
  have "sorted (map (\<lambda>(k, v). - \<bar>v\<bar>) (sort_abs_desc xs))"
    unfolding sort_abs_desc_def by (rule sorted_sort_key)
  then show "sorted_wrt (\<lambda>a b. \<bar>snd b\<bar> \<le> \<bar>snd a\<bar>) (sort_abs_desc xs)"
    by (simp add: sorted_wrt_map case_prod_beta)
  fix a :: real
  have "filter (\<lambda>y. (case y of (k, v) \<Rightarrow> - \<bar>v\<bar>) = - a) (sort_abs_desc xs) =
        filter (\<lambda>y. (case y of (k, v) \<Rightarrow> - \<bar>v\<bar>) = - a) xs"
    unfolding sort_abs_desc_def by (rule sort_key_stable)
  then show "filter (\<lambda>(k, v). \<bar>v\<bar> = a) (sort_abs_desc xs) = filter (\<lambda>(k, v). \<bar>v\<bar> = a) xs"
    by (simp add: case_prod_unfold)
qed

lemma length_top4: "length grouped = 6 \<Longrightarrow> length (take 4 (sort_abs_desc (ranked_percentages grouped))) = 4"
  by (simp add: sort_abs_desc_def ranked_percentages_def Let_def)

lemma ranked_names: "map fst (ranked_percentages grouped) = map fst grouped"
  by (simp add: ranked_percentages_def Let_def comp_def case_prod_unfold)

lemma feature_group_names:
  "map fst (FEATURE_GROUPS fc) =
     [GROUP_area_rooms, GROUP_baths, GROUP_condition, GROUP_payment, GROUP_floor, GROUP_city]"
  by (simp add: FEATURE_GROUPS_def)

text \<open>
  C6, as the code has it. On an input encoded against a schema without repeated columns
  the sums of the six groups are computed. Whenever they are, the percentages are those
  of the six groups in the order of their definition; if some sum is not 0, the absolute
  values of the percentages add up to 100 within 0.03, that is six roundings of at most
  0.005 each; if every sum is 0, every percentage is 0. The result is the first four items
  of the percentages sorted by decreasing absolute value, equal absolute values staying
  in the order of the definition of the groups.
\<close>

theorem group_shap_values_normalized_top4:
  "(distinct fc \<longrightarrow>
      (\<exists>grouped. grouped_sums (FEATURE_GROUPS fc) shap (build_model_input fc cc p) = Some grouped))
   \<and> (\<forall>grouped. grouped_sums (FEATURE_GROUPS fc) shap df = Some grouped \<longrightarrow>
        map fst (ranked_percentages grouped) =
          [GROUP_area_rooms, GROUP_baths, GROUP_condition, GROUP_payment, GROUP_floor, GROUP_city]
        \<and> ((\<exists>v \<in> snd ` set grouped. v \<noteq> 0) \<longrightarrow>
             \<bar>(\<Sum>(k, v)\<leftarrow>ranked_percentages grouped. \<bar>v\<bar>) - 100\<bar> \<le> 3 / 100)
        \<and> ((\<forall>v \<in> snd ` set grouped. v = 0) \<longrightarrow>
             (\<forall>v \<in> snd ` set (ranked_percentages grouped). v = 0))
        \<and> group_shap_values fc shap df = Some (take 4 (sort_abs_desc (ranked_percentages grouped)))
        \<and> length (take 4 (sort_abs_desc (ranked_percentages grouped))) = 4
        \<and> set (take 4 (sort_abs_desc (ranked_percentages grouped))) \<subseteq> set (ranked_percentages grouped)
        \<and> mset (sort_abs_desc (ranked_percentages grouped)) = mset (ranked_percentages grouped)
        \<and> sorted_wrt (\<lambda>a b. \<bar>snd b\<bar> \<le> \<bar>snd a\<bar>) (sort_abs_desc (ranked_percentages grouped))
        \<and> (\<forall>a. filter (\<lambda>(k, v). \<bar>v\<bar> = a) (sort_abs_desc (ranked_percentages grouped)) =
                 filter (\<lambda>(k, v). \<bar>v\<bar> = a) (ranked_percentages grouped)))"
proof (intro conjI impI allI)
  assume "distinct fc"
  then show "\<exists>grouped. grouped_sums (FEATURE_GROUPS fc) shap (build_model_input fc cc p) = Some grouped"
    by (rule grouped_sums_encoded)
next
  fix grouped
  assume g: "grouped_sums (FEATURE_GROUPS fc) shap df = Some grouped"
  have names: "map fst grouped =
      [GROUP_area_rooms, GROUP_baths, GROUP_condition, GROUP_payment, GROUP_floor, GROUP_city]"
    using grouped_sums_names [OF g] by (simp only: feature_group_names)
  then have "length (map fst grouped) =
      length [GROUP_area_rooms, GROUP_baths, GROUP_condition, GROUP_payment, GROUP_floor, GROUP_city]"
    by (simp only:)
  then have len: "length grouped = 6"
    by simp
  show "map fst (ranked_percentages grouped) =
      [GROUP_area_rooms, GROUP_baths, GROUP_condition, GROUP_payment, GROUP_floor, GROUP_city]"
    by (simp only: ranked_names names)
  show "group_shap_values fc shap df = Some (take 4 (sort_abs_desc (ranked_percentages grouped)))"
    by (simp add: group_shap_values_def g)
  show "length (take 4 (sort_abs_desc (ranked_percentages grouped))) = 4"
    using len by (rule length_top4)
  show "set (take 4 (sort_abs_desc (ranked_percentages grouped))) \<subseteq> set (ranked_percentages grouped)"
    using set_take_subset [of 4 "sort_abs_desc (ranked_percentages grouped)"]
    by (simp add: sort_abs_desc_def)
  show "mset (sort_abs_desc (ranked_percentages grouped)) = mset (ranked_percentages grouped)"
    using sort_abs_desc_props by blast
  show "sorted_wrt (\<lambda>a b. \<bar>snd b\<bar> \<le> \<bar>snd a\<bar>) (sort_abs_desc (ranked_percentages grouped))"
    using sort_abs_desc_props by blast
  show "filter (\<lambda>(k, v). \<bar>v\<bar> = a) (sort_abs_desc (ranked_percentages grouped)) =
                 filter (\<lambda>(k, v). \<bar>v\<bar> = a) (ranked_percentages grouped)" for a
    using sort_abs_desc_props by blast
  show "\<forall>v \<in> snd ` set (ranked_percentages grouped). v = 0"
    if "\<forall>v \<in> snd ` set grouped. v = 0"
    using that by (rule ranked_all_zero)
  show "\<bar>(\<Sum>(k, v)\<leftarrow>ranked_percentages grouped. \<bar>v\<bar>) - 100\<bar> \<le> 3 / 100"
    if "\<exists>v \<in> snd ` set grouped. v \<noteq> 0"
    using ranked_sum_near_100 [OF that] len by simp
qed

lemma example_city_row:
  "build_model_input example_columns example_cities example_city_payload =
     [(KEY_rooms, 3), (KEY_area, 120), (CITY_PREFIX @ [65], 1), (CITY_PREFIX @ [66], 0),
      (CITY_PREFIX @ OTHER_CITY, 0)]"
  by (simp add: example_city_payload_def build_model_input_def reindex_def base_cols_def
      city_cols_def key_defs example_defs)

lemma example_grouped:
  "grouped_sums (FEATURE_GROUPS example_columns) example_attributions
     (build_model_input example_columns example_cities example_city_payload) =
   Some [(GROUP_area_rooms, 4), (GROUP_baths, 0), (GROUP_condition, 0), (GROUP_payment, 0),
         (GROUP_floor, 0), (GROUP_city, 5)]"
  unfolding example_city_row
  by (simp add: FEATURE_GROUPS_def example_columns_def example_attributions_def iloc0_def
      feature_shap_def shap_sum_def key_defs group_defs)

lemma example_zero_grouped:
  "grouped_sums (FEATURE_GROUPS example_columns) [0, 0, 0, 0, 0]
     (build_model_input example_columns example_cities example_city_payload) =
   Some [(GROUP_area_rooms, 0), (GROUP_baths, 0), (GROUP_condition, 0), (GROUP_payment, 0),
         (GROUP_floor, 0), (GROUP_city, 0)]"
  unfolding example_city_row
  by (simp add: FEATURE_GROUPS_def example_columns_def iloc0_def
      feature_shap_def shap_sum_def key_defs group_defs)

lemma example_ranked:
  "ranked_percentages [(GROUP_area_rooms, 4), (GROUP_baths, 0), (GROUP_condition, 0),
      (GROUP_payment, 0), (GROUP_floor, 0), (GROUP_city, 5)] =
   [(GROUP_area_rooms, 1111 / 25), (GROUP_baths, 0), (GROUP_condition, 0),
      (GROUP_payment, 0), (GROUP_floor, 0), (GROUP_city, 1389 / 25)]"
  by (simp add: ranked_percentages_def round2_def round_half_even_def)

theorem group_shap_values_normalized_top4_witness:
  "distinct example_columns
   \<and> grouped_sums (FEATURE_GROUPS example_columns) example_attributions
        (build_model_input example_columns example_cities example_city_payload) =
      Some [(GROUP_area_rooms, 4), (GROUP_baths, 0), (GROUP_condition, 0), (GROUP_payment, 0),
            (GROUP_floor, 0), (GROUP_city, 5)]
   \<and> (\<exists>v \<in> snd ` set [(GROUP_area_rooms, 4 :: real), (GROUP_baths, 0), (GROUP_condition, 0),
            (GROUP_payment, 0), (GROUP_floor, 0), (GROUP_city, 5)]. v \<noteq> 0)
   \<and> group_shap_values example_columns example_attributions
        (build_model_input example_columns example_cities example_city_payload) =
      Some [(GROUP_city, 1389 / 25), (GROUP_area_rooms, 1111 / 25), (GROUP_baths, 0),
            (GROUP_condition, 0)]
   \<and> grouped_sums (FEATURE_GROUPS example_columns) [0, 0, 0, 0, 0]
        (build_model_input example_columns example_cities example_city_payload) =
      Some [(GROUP_area_rooms, 0), (GROUP_baths, 0), (GROUP_condition, 0), (GROUP_payment, 0),
            (GROUP_floor, 0), (GROUP_city, 0)]
   \<and> group_shap_values example_columns [0, 0, 0, 0, 0]
        (build_model_input example_columns example_cities example_city_payload) =
      Some [(GROUP_area_rooms, 0), (GROUP_baths, 0), (GROUP_condition, 0), (GROUP_payment, 0)]"
proof -
  have d: "distinct example_columns"
    by (simp add: example_columns_def key_defs)
  have nz: "\<exists>v \<in> snd ` set [(GROUP_area_rooms, 4 :: real), (GROUP_baths, 0), (GROUP_condition, 0),
            (GROUP_payment, 0), (GROUP_floor, 0), (GROUP_city, 5)]. v \<noteq> 0"
    by simp
  have "group_shap_values example_columns example_attributions
        (build_model_input example_columns example_cities example_city_payload) =
      Some (take 4 (sort_abs_desc (ranked_percentages
        [(GROUP_area_rooms, 4), (GROUP_baths, 0), (GROUP_condition, 0), (GROUP_payment, 0),
         (GROUP_floor, 0), (GROUP_city, 5)])))"
    using group_shap_values_normalized_top4
      [where fc = example_columns and shap = example_attributions
         and df = "build_model_input example_columns example_cities example_city_payload"]
      example_grouped
    by blast
  then have one: "group_shap_values example_columns example_attributions
        (build_model_input example_columns example_cities example_city_payload) =
      Some [(GROUP_city, 1389 / 25), (GROUP_area_rooms, 1111 / 25), (GROUP_baths, 0),
            (GROUP_condition, 0)]"
    by (simp add: example_ranked sort_abs_desc_def)
  have "group_shap_values example_columns [0, 0, 0, 0, 0]
        (build_model_input example_columns example_cities example_city_payload) =
      Some (take 4 (sort_abs_desc (ranked_percentages
        [(GROUP_area_rooms, 0), (GROUP_baths, 0), (GROUP_condition, 0), (GROUP_payment, 0),
         (GROUP_floor, 0), (GROUP_city, 0)])))"
    using group_shap_values_normalized_top4
      [where fc = example_columns and shap = "[0, 0, 0, 0, 0]"
         and df = "build_model_input example_columns example_cities example_city_payload"]
      example_zero_grouped
    by blast
  then have two: "group_shap_values example_columns [0, 0, 0, 0, 0]
        (build_model_input example_columns example_cities example_city_payload) =
      Some [(GROUP_area_rooms, 0), (GROUP_baths, 0), (GROUP_condition, 0), (GROUP_payment, 0)]"
    by (simp add: ranked_percentages_def round2_zero sort_abs_desc_def)
  from d nz one two example_grouped example_zero_grouped show ?thesis
    by (intro conjI)
qed

text \<open>
  C6 as the specification words it fails when all attributions are 0: the denominator
  is then the small constant of the code, and the absolute percentages add up to 0.
\<close>

theorem zero_attributions_counterexample:
  "map_option (\<lambda>grouped. \<Sum>(k, v)\<leftarrow>ranked_percentages grouped. \<bar>v\<bar>)
     (grouped_sums (FEATURE_GROUPS example_columns) [0, 0, 0, 0, 0]
        (build_model_input example_columns example_cities example_city_payload)) = Some 0"
  by (simp add: example_zero_grouped ranked_percentages_def round2_zero)

section \<open>The predicted price\<close>

lemma predict_returns:
  assumes "group_shap_values fc (ex (build_model_input fc cc p)) (build_model_input fc cc p) = Some tops"
  shows "predict m ex fc cc p =
     Some \<lparr> predicted_price =
              round2 (if truthy (parking p) then m (build_model_input fc cc p) * 1.011
                      else m (build_model_input fc cc p)),
            factors = map (\<lambda>(k, v). (k, round2 v)) tops \<rparr>"
  using assms by (simp add: predict_def Let_def)

lemma predict_predicted_price:
  assumes "predict m ex fc cc p = Some r"
  shows "predicted_price r =
     round2 (if truthy (parking p) then m (build_model_input fc cc p) * 1.011
             else m (build_model_input fc cc p))"
  using assms by (auto simp: predict_def Let_def split: bind_splits)

lemma predict_total:
  assumes "distinct fc"
  shows "\<exists>r. predict m ex fc cc p = Some r"
proof -
  from grouped_sums_encoded [OF assms] obtain grouped where
    "grouped_sums (FEATURE_GROUPS fc) (ex (build_model_input fc cc p)) (build_model_input fc cc p)
       = Some grouped"
    by blast
  then have "group_shap_values fc (ex (build_model_input fc cc p)) (build_model_input fc cc p) =
      Some (take 4 (sort_abs_desc (ranked_percentages grouped)))"
    by (simp add: group_shap_values_def)
  then show ?thesis
    by (simp add: predict_returns [where ex = ex])
qed

text \<open>
  C8, as the code has it. \<open>judge_price\<close> and \<open>predict\<close> return as predicted price
  the estimate of the model for the request, times 1.011 when the parking flag is
  neither absent nor 0, and then rounded to two decimals. \<open>judge_price\<close> always
  returns; \<open>predict\<close> returns on a schema without repeated columns.
\<close>

theorem predicted_price_parking_surcharge:
  "(\<exists>r. judge_price m fc cc j = Some r
        \<and> out_predicted_price r =
            round2 (if truthy (parking j) then m (build_model_input fc cc j) * 1.011
                    else m (build_model_input fc cc j)))
   \<and> (distinct fc \<longrightarrow> (\<exists>r. predict m ex fc cc p = Some r))
   \<and> (\<forall>r. predict m ex fc cc p = Some r \<longrightarrow>
         predicted_price r =
           round2 (if truthy (parking p) then m (build_model_input fc cc p) * 1.011
                   else m (build_model_input fc cc p)))
   \<and> (truthy (parking p) \<longleftrightarrow> parking p \<noteq> None \<and> parking p \<noteq> Some 0)"
proof (intro conjI impI allI)
  show "\<exists>r. judge_price m fc cc j = Some r
        \<and> out_predicted_price r =
            round2 (if truthy (parking j) then m (build_model_input fc cc j) * 1.011
                    else m (build_model_input fc cc j))"
    by (simp add: judge_price_returns)
  show "\<exists>r. predict m ex fc cc p = Some r" if "distinct fc"
    using that by (rule predict_total)
  show "predicted_price r =
           round2 (if truthy (parking p) then m (build_model_input fc cc p) * 1.011
                   else m (build_model_input fc cc p))"
    if "predict m ex fc cc p = Some r" for r
    using that by (rule predict_predicted_price)
  show "truthy (parking p) \<longleftrightarrow> parking p \<noteq> None \<and> parking p \<noteq> Some 0"
    by (cases "parking p") (simp_all add: truthy_def)
qed

theorem predicted_price_parking_surcharge_witness:
  "distinct [KEY_rooms]
   \<and> truthy (parking (example_payload\<lparr>parking := Some 1\<rparr>))
   \<and> stub_model (build_model_input [KEY_rooms] [] (example_payload\<lparr>parking := Some 1\<rparr>)) = 3 / 8
   \<and> (\<exists>r. predict stub_model example_explainer [KEY_rooms] [] (example_payload\<lparr>parking := Some 1\<rparr>)
              = Some r
          \<and> predicted_price r = round2 (3 / 8 * 1.011) \<and> predicted_price r = 19 / 50)"
proof -
  note t = predicted_price_parking_surcharge
    [where m = stub_model and ex = example_explainer and fc = "[KEY_rooms]" and cc = "[]"
       and p = "example_payload\<lparr>parking := Some 1\<rparr>"]
  have d: "distinct [KEY_rooms]" by simp
  have tr: "truthy (parking (example_payload\<lparr>parking := Some 1\<rparr>))"
    by (simp add: truthy_def)
  have est: "stub_model (build_model_input [KEY_rooms] [] (example_payload\<lparr>parking := Some 1\<rparr>)) = 3 / 8"
    by (simp add: stub_model_rooms example_payload_def)
  from t d obtain r where
    r: "predict stub_model example_explainer [KEY_rooms] [] (example_payload\<lparr>parking := Some 1\<rparr>)
          = Some r"
    by blast
  with t have "predicted_price r =
      round2 (if truthy (parking (example_payload\<lparr>parking := Some 1\<rparr>))
              then stub_model (build_model_input [KEY_rooms] [] (example_payload\<lparr>parking := Some 1\<rparr>)) * 1.011
              else stub_model (build_model_input [KEY_rooms] [] (example_payload\<lparr>parking := Some 1\<rparr>)))"
    by blast
  then have p: "predicted_price r = round2 (3 / 8 * 1.011)"
    by (simp only: tr est if_True)
  moreover have "round2 (3 / 8 * 1.011) = 19 / 50"
    by (simp add: round2_def round_half_even_def)
  ultimately show ?thesis
    using d tr est r by auto
qed

text \<open>
  C8 as the specification words it fails by the rounding: without parking, the model
  gives 0.375 for the example request and the response has 0.38.
\<close>

theorem predicted_price_rounded_counterexample:
  "\<not> truthy (parking example_payload)
   \<and> stub_model (build_model_input [KEY_rooms] [] example_payload) = 3 / 8
   \<and> map_option out_predicted_price (judge_price stub_model [KEY_rooms] [] example_payload)
       = Some (19 / 50)"
  by (simp add: judge_price_returns stub_model_rooms truthy_def example_payload_def
      round2_def round_half_even_def)

end
